theory Spec2Isabelle
  imports Complex_Main "HOL-Library.AList"
begin

section \<open>JavaScript values seen by the snippets\<close>

text \<open>
  The snippets are JavaScript. The value universe below covers every primitive kind and
  these kinds of object, each given by what the code can observe of it.
  \<^item> A number is an IEEE double; only its sign class and its order against the constant 2
    are observed, so a finite double is kept as the rational it denotes (both zeros are
    \<open>Finite 0\<close>). A string is its list of code units.
  \<^item> An array is the list of its elements (no holes, no properties of its own beyond
    them and \<open>length\<close>).
  \<^item> A function written by a caller carries its arity (its \<open>length\<close>) and what a call of
    it as a conversion method does: return a fixed value, return its receiver, or throw.
    It has no other effect.
  \<^item> \<open>Builtin name n\<close> is the built-in function that \<open>Object.prototype\<close> holds under
    \<open>name\<close>, of arity \<open>n\<close>; \<open>ObjectPrototype\<close> is \<open>Object.prototype\<close> itself.
  \<^item> \<open>Object l ps inherits\<close> is a data object: \<open>l\<close> is its own \<open>length\<close> property when it
    has a numeric one (an array-like), \<open>ps\<close> its other own properties, all of them plain
    writable data properties (an entry of \<open>ps\<close> under the key \<open>length\<close> is never
    consulted), and \<open>inherits\<close> tells whether its prototype is \<open>Object.prototype\<close> (an
    object literal) or \<open>null\<close> (\<open>Object.create(null)\<close>).
  Objects are immutable values here: no aliasing between a stored object and one the
  caller keeps. The built-in objects are as the language defines them.
\<close>

datatype number = NaN | Finite rat | PosInfinity | NegInfinity

text \<open>
  A property key is a string or a symbol. The symbol numbered 0 is the well-known
  \<open>Symbol.toPrimitive\<close>.
\<close>

datatype propkey = StringKey string | SymbolKey nat

text \<open>
  \<open>Error(msg)\<close> as thrown by the code, and the \<open>TypeError\<close> the language raises.
  \<open>Unmodelled\<close> is not an error of the language: it marks the two places where the
  outcome depends on built-in objects that are not described here (see \<open>call_method\<close> and
  \<open>lookup\<close>), so that no result is invented for them.
\<close>

datatype error = Error string | TypeError string | Unmodelled string

datatype jsval =
    Undefined
  | Null
  | Boolean bool
  | Number number
  | String string
  | Symbol nat
  | BigInt int
  | Array "jsval list"
  | Function nat outcome
  | Builtin string nat
  | Object "number option" "(propkey \<times> jsval) list" bool
  | ObjectPrototype
and outcome = Returns jsval | ReturnsReceiver | Throws error

text \<open>The \<open>typeof\<close> operator.\<close>

fun typeof :: "jsval \<Rightarrow> string" where
  "typeof Undefined = ''undefined''"
| "typeof Null = ''object''"
| "typeof (Boolean b) = ''boolean''"
| "typeof (Number n) = ''number''"
| "typeof (String s) = ''string''"
| "typeof (Symbol i) = ''symbol''"
| "typeof (BigInt i) = ''bigint''"
| "typeof (Array xs) = ''object''"
| "typeof (Function n out) = ''function''"
| "typeof (Builtin name n) = ''function''"
| "typeof (Object l ps inherits) = ''object''"
| "typeof ObjectPrototype = ''object''"

text \<open>ToBoolean, as applied by \<open>!\<close> and \<open>if\<close>.\<close>

fun truthy :: "jsval \<Rightarrow> bool" where
  "truthy Undefined = False"
| "truthy Null = False"
| "truthy (Boolean b) = b"
| "truthy (Number NaN) = False"
| "truthy (Number (Finite q)) = (q \<noteq> 0)"
| "truthy (Number PosInfinity) = True"
| "truthy (Number NegInfinity) = True"
| "truthy (String s) = (s \<noteq> [])"
| "truthy (Symbol i) = True"
| "truthy (BigInt i) = (i \<noteq> 0)"
| "truthy (Array xs) = True"
| "truthy (Function n out) = True"
| "truthy (Builtin name n) = True"
| "truthy (Object l ps inherits) = True"
| "truthy ObjectPrototype = True"

text \<open>Whether a value is an object (and not a primitive).\<close>

fun is_object :: "jsval \<Rightarrow> bool" where
  "is_object (Array xs) = True"
| "is_object (Function n out) = True"
| "is_object (Builtin name n) = True"
| "is_object (Object l ps inherits) = True"
| "is_object ObjectPrototype = True"
| "is_object v = False"

text \<open>
  The \<open><\<close> operator on two numbers: false as soon as one side is \<open>NaN\<close>.
\<close>

fun number_less :: "number \<Rightarrow> number \<Rightarrow> bool" where
  "number_less NaN y = False"
| "number_less x NaN = False"
| "number_less (Finite a) (Finite b) = (a < b)"
| "number_less (Finite a) PosInfinity = True"
| "number_less (Finite a) NegInfinity = False"
| "number_less PosInfinity y = False"
| "number_less NegInfinity NegInfinity = False"
| "number_less NegInfinity y = True"

text \<open>
  The property read \<open>value.length\<close>. On \<open>undefined\<close> and \<open>null\<close> it raises a
  \<open>TypeError\<close>. In this universe the read yields a number or \<open>undefined\<close>; the result
  \<open>None\<close> stands for \<open>undefined\<close> (the value has no \<open>length\<close> property).
\<close>

fun get_length :: "jsval \<Rightarrow> error + number option" where
  "get_length Undefined = Inl (TypeError ''Cannot read properties of undefined (reading length)'')"
| "get_length Null = Inl (TypeError ''Cannot read properties of null (reading length)'')"
| "get_length (String s) = Inr (Some (Finite (of_nat (length s))))"
| "get_length (Array xs) = Inr (Some (Finite (of_nat (length xs))))"
| "get_length (Function n out) = Inr (Some (Finite (of_nat n)))"
| "get_length (Builtin name n) = Inr (Some (Finite (of_nat n)))"
| "get_length (Object l ps inherits) = Inr l"
| "get_length ObjectPrototype = Inr None"
| "get_length (Boolean b) = Inr None"
| "get_length (Number n) = Inr None"
| "get_length (Symbol i) = Inr None"
| "get_length (BigInt i) = Inr None"

text \<open>
  \<open>l < 2\<close> for the result \<open>l\<close> of a \<open>length\<close> read: \<open>undefined\<close> converts to \<open>NaN\<close>, and
  the comparison is false.
\<close>

fun length_less :: "number option \<Rightarrow> number \<Rightarrow> bool" where
  "length_less None y = False"
| "length_less (Some x) y = number_less x y"

text \<open>
  The members of \<open>Object.prototype\<close> other than the accessor \<open>__proto__\<close>: built-in
  functions, all of them writable data properties under string keys.
\<close>

definition Object_prototype_members :: "(string \<times> nat) list" where
  "Object_prototype_members =
     [(''constructor'', 1), (''__defineGetter__'', 2), (''__defineSetter__'', 2),
      (''hasOwnProperty'', 1), (''__lookupGetter__'', 1), (''__lookupSetter__'', 1),
      (''isPrototypeOf'', 1), (''propertyIsEnumerable'', 1), (''toString'', 0),
      (''valueOf'', 0), (''toLocaleString'', 0)]"

fun Object_prototype_member :: "propkey \<Rightarrow> jsval option" where
  "Object_prototype_member (StringKey s) =
     (case map_of Object_prototype_members s of
        None \<Rightarrow> None
      | Some n \<Rightarrow> Some (Builtin s n))"
| "Object_prototype_member (SymbolKey i) = None"

section \<open>Conversion to a string\<close>

text \<open>
  ToString, as applied to every \<open>${...}\<close> of a template literal. The text it produces is
  not modelled (a console line is kept as its template and the interpolated values, see
  \<open>message\<close>); whether it completes is, and with which error it fails: \<open>None\<close> is normal
  completion.
\<close>

definition symbol_to_string :: error where
  "symbol_to_string = TypeError ''Cannot convert a Symbol value to a string''"

definition object_to_primitive :: error where
  "object_to_primitive = TypeError ''Cannot convert object to primitive value''"

definition not_a_function :: error where
  "not_a_function = TypeError ''Symbol.toPrimitive is not a function''"

text \<open>ToString of a primitive: only a symbol fails.\<close>

fun primitive_ToString :: "jsval \<Rightarrow> error option" where
  "primitive_ToString (Symbol i) = Some symbol_to_string"
| "primitive_ToString v = None"

text \<open>
  \<open>Get(o, key)\<close> for a data object \<open>o\<close> and a key other than \<open>length\<close> and \<open>__proto__\<close>:
  its own property, or the member of \<open>Object.prototype\<close> when it inherits from it.
\<close>

definition object_member :: "(propkey \<times> jsval) list \<Rightarrow> bool \<Rightarrow> propkey \<Rightarrow> jsval" where
  "object_member ps inherits key =
     (case map_of ps key of
        Some v \<Rightarrow> v
      | None \<Rightarrow>
          (if inherits
           then (case Object_prototype_member key of Some v \<Rightarrow> v | None \<Rightarrow> Undefined)
           else Undefined))"

text \<open>
  \<open>Call(method, receiver)\<close> for a conversion method. The built-in \<open>toString\<close> returns a
  string and the built-in \<open>valueOf\<close> returns its receiver; what the other built-in
  functions do when called this way is not described here.
\<close>

fun call_method :: "jsval \<Rightarrow> jsval \<Rightarrow> error + jsval" where
  "call_method (Function n (Returns r)) receiver = Inr r"
| "call_method (Function n ReturnsReceiver) receiver = Inr receiver"
| "call_method (Function n (Throws e)) receiver = Inl e"
| "call_method (Builtin name n) receiver =
     (if name = ''toString'' then Inr (String ''[object Object]'')
      else if name = ''valueOf'' then Inr receiver
      else Inl (Unmodelled ''call of a built-in function as a conversion method''))"
| "call_method v receiver = Inl not_a_function"

fun callable :: "jsval \<Rightarrow> bool" where
  "callable (Function n out) = True"
| "callable (Builtin name n) = True"
| "callable v = False"

text \<open>
  OrdinaryToPrimitive with hint string, then ToString of the primitive: \<open>toString\<close> is
  tried, then \<open>valueOf\<close>; a method that is not callable, or that returns an object, is
  passed over; when none is left the conversion fails.
\<close>

fun ordinary_to_string :: "jsval \<Rightarrow> jsval list \<Rightarrow> error option" where
  "ordinary_to_string receiver [] = Some object_to_primitive"
| "ordinary_to_string receiver (m # ms) =
     (if callable m
      then (case call_method m receiver of
              Inl e \<Rightarrow> Some e
            | Inr r \<Rightarrow>
                if is_object r then ordinary_to_string receiver ms else primitive_ToString r)
      else ordinary_to_string receiver ms)"

text \<open>
  ToPrimitive with hint string on a data object, then ToString: a \<open>Symbol.toPrimitive\<close>
  method, when the object has one that is neither \<open>undefined\<close> nor \<open>null\<close>, must be
  callable and must return a primitive; otherwise OrdinaryToPrimitive decides.
\<close>

definition object_ToString :: "number option \<Rightarrow> (propkey \<times> jsval) list \<Rightarrow> bool \<Rightarrow> error option" where
  "object_ToString l ps inherits =
     (let exotic = object_member ps inherits (SymbolKey 0) in
      if exotic \<noteq> Undefined \<and> exotic \<noteq> Null
      then (if callable exotic
            then (case call_method exotic (Object l ps inherits) of
                    Inl e \<Rightarrow> Some e
                  | Inr r \<Rightarrow> if is_object r then Some object_to_primitive else primitive_ToString r)
            else Some not_a_function)
      else ordinary_to_string (Object l ps inherits)
             [object_member ps inherits (StringKey ''toString''),
              object_member ps inherits (StringKey ''valueOf'')])"

text \<open>The first error of a list of outcomes, in order.\<close>

fun first_error :: "error option list \<Rightarrow> error option" where
  "first_error [] = None"
| "first_error (None # rest) = first_error rest"
| "first_error (Some e # rest) = Some e"

text \<open>
  ToString of any value. An array is joined from the strings of its elements, so it fails
  when an element does (\<open>undefined\<close> and \<open>null\<close> elements join as the empty string); a
  function prints its source text; \<open>Object.prototype\<close> prints through its own \<open>toString\<close>.
\<close>

fun ToString :: "jsval \<Rightarrow> error option" where
  "ToString (Symbol i) = Some symbol_to_string"
| "ToString (Array xs) = first_error (map ToString xs)"
| "ToString (Object l ps inherits) = object_ToString l ps inherits"
| "ToString v = None"

fun key_ToString :: "propkey \<Rightarrow> error option" where
  "key_ToString (StringKey s) = None"
| "key_ToString (SymbolKey i) = Some symbol_to_string"

section \<open>Proxy: proxy.mjs\<close>

text \<open>
  The target object \<open>person\<close> is an ordinary object: its own properties, in insertion
  order, and its prototype, which is \<open>Object.prototype\<close> for the object literal of the
  module and changes when a write reaches the inherited setter \<open>__proto__\<close>. Only
  the reads \<open>proxy[prop]\<close> and the writes \<open>proxy[prop] = value\<close>, which the handlers
  trap, are modelled: other operations on a proxy (\<open>delete\<close>, \<open>Object.defineProperty\<close>,
  \<open>Object.freeze\<close>) reach \<open>person\<close> without a handler and are not. The own properties
  of \<open>person\<close> are writable data properties throughout.
\<close>

type_synonym obj = "(propkey \<times> jsval) list"

text \<open>
  A console line, as its template and the values interpolated into it:
  \<^item> \<open>Missing\<close>: \<^verbatim>\<open>Hmm.. this property doesn't seem to exist on the target object\<close>
  \<^item> \<open>ValueIs prop v\<close>: \<^verbatim>\<open>The value of ${prop} is ${obj[prop]}\<close>
  \<^item> \<open>Changed prop old new\<close>: \<^verbatim>\<open>Changed ${prop} from ${obj[prop]} to ${value}\<close>
    (\<open>personProxyValidation\<close> ends the line with a period)
\<close>

datatype message = Missing | ValueIs propkey jsval | Changed propkey jsval jsval

text \<open>
  The module's state: the own properties of the shared target \<open>person\<close>, its prototype
  (\<open>Null\<close>, or an object), and what was printed.
\<close>

record world =
  person :: obj
  prototype :: jsval
  console :: "message list"

definition person_init :: obj where
  "person_init =
     [(StringKey ''name'', String ''John Doe''),
      (StringKey ''age'', Number (Finite 42)),
      (StringKey ''nationality'', String ''American'')]"

definition world_init :: world where
  "world_init = \<lparr>person = person_init, prototype = ObjectPrototype, console = []\<rparr>"

subsection \<open>Property lookup along the prototype chain\<close>

text \<open>
  What a lookup finds on an object of the chain, or above it: nothing, a writable data
  property, a data property that is not writable, or the accessor \<open>__proto__\<close> of
  \<open>Object.prototype\<close>. \<open>Unknown\<close> stands for the members of \<open>Array.prototype\<close> and
  \<open>Function.prototype\<close> and for a function's own properties other than \<open>length\<close>, which
  are not described here.
\<close>

datatype slot = Absent | Data jsval | ReadOnly jsval | ProtoAccessor | Unknown

definition Object_prototype_slot :: "propkey \<Rightarrow> slot" where
  "Object_prototype_slot key =
     (if key = StringKey ''__proto__'' then ProtoAccessor
      else (case Object_prototype_member key of Some v \<Rightarrow> Data v | None \<Rightarrow> Absent))"

text \<open>
  A canonical array index: a decimal numeral without a leading zero.
\<close>

definition is_digit :: "char \<Rightarrow> bool" where
  "is_digit c = (48 \<le> (of_char c :: nat) \<and> (of_char c :: nat) \<le> 57)"

fun array_index :: "propkey \<Rightarrow> nat option" where
  "array_index (StringKey s) =
     (if s \<noteq> [] \<and> list_all is_digit s \<and> (length s = 1 \<or> hd s \<noteq> CHR ''0'')
      then Some (foldl (\<lambda>a c. 10 * a + (of_char c - 48)) 0 s)
      else None)"
| "array_index (SymbolKey i) = None"

text \<open>
  The property found under a key on the object \<open>p\<close> or above it. A data object holds its
  own properties and may inherit from \<open>Object.prototype\<close>; an array holds \<open>length\<close> and its
  elements, and \<open>Array.prototype\<close> holds no element; the \<open>length\<close> of a function is not
  writable; arrays and functions inherit the accessor \<open>__proto__\<close>.
\<close>

fun find_slot :: "jsval \<Rightarrow> propkey \<Rightarrow> slot" where
  "find_slot ObjectPrototype key = Object_prototype_slot key"
| "find_slot (Object l ps inherits) key =
     (case (if key = StringKey ''length'' then map_option Number l else map_of ps key) of
        Some v \<Rightarrow> Data v
      | None \<Rightarrow> if inherits then Object_prototype_slot key else Absent)"
| "find_slot (Array xs) key =
     (if key = StringKey ''length'' then Data (Number (Finite (of_nat (length xs))))
      else (case array_index key of
              Some i \<Rightarrow> if i < length xs then Data (xs ! i) else Absent
            | None \<Rightarrow> if key = StringKey ''__proto__'' then ProtoAccessor else Unknown))"
| "find_slot (Function n out) key =
     (if key = StringKey ''length'' then ReadOnly (Number (Finite (of_nat n)))
      else if key = StringKey ''__proto__'' then ProtoAccessor else Unknown)"
| "find_slot (Builtin name n) key =
     (if key = StringKey ''length'' then ReadOnly (Number (Finite (of_nat n)))
      else if key = StringKey ''__proto__'' then ProtoAccessor else Unknown)"
| "find_slot v key = Absent"

definition not_described :: error where
  "not_described = Unmodelled ''member of Array.prototype or Function.prototype''"

text \<open>
  The read \<open>obj[prop]\<close> on \<open>person\<close>: an own property, or what the chain holds; the getter
  of \<open>__proto__\<close> returns the prototype of \<open>person\<close>; an absent property reads \<open>undefined\<close>.
  \<open>Reflect.get(obj, prop)\<close> is the same read.
\<close>

definition get_prop :: "world \<Rightarrow> propkey \<Rightarrow> error + jsval" where
  "get_prop w key =
     (case map_of (person w) key of
        Some v \<Rightarrow> Inr v
      | None \<Rightarrow>
          (case find_slot (prototype w) key of
             Absent \<Rightarrow> Inr Undefined
           | Data v \<Rightarrow> Inr v
           | ReadOnly v \<Rightarrow> Inr v
           | ProtoAccessor \<Rightarrow> Inr (prototype w)
           | Unknown \<Rightarrow> Inl not_described))"

text \<open>
  The write of a property of \<open>person\<close> (OrdinarySet), with its success flag. An own
  property is overwritten in place. Otherwise the chain decides: nothing or a writable
  data property there, and the property is created on \<open>person\<close>; a property that is not
  writable, and the write is refused; the setter of \<open>__proto__\<close> replaces the prototype
  when the value is an object or \<open>null\<close> and does nothing for any other value, and creates
  no property.
\<close>

definition OrdinarySet :: "world \<Rightarrow> propkey \<Rightarrow> jsval \<Rightarrow> error + bool \<times> world" where
  "OrdinarySet w key v =
     (case map_of (person w) key of
        Some old \<Rightarrow> Inr (True, w\<lparr>person := AList.update key v (person w)\<rparr>)
      | None \<Rightarrow>
          (case find_slot (prototype w) key of
             Absent \<Rightarrow> Inr (True, w\<lparr>person := AList.update key v (person w)\<rparr>)
           | Data x \<Rightarrow> Inr (True, w\<lparr>person := AList.update key v (person w)\<rparr>)
           | ReadOnly x \<Rightarrow> Inr (False, w)
           | ProtoAccessor \<Rightarrow>
               Inr (True, if is_object v \<or> v = Null then w\<lparr>prototype := v\<rparr> else w)
           | Unknown \<Rightarrow> Inl not_described))"

definition read_only :: error where
  "read_only = TypeError ''Cannot assign to read only property''"

text \<open>
  The assignment \<open>obj[prop] = value\<close> inside a handler. The module is strict code, so a
  refused write throws.
\<close>

definition set_prop :: "world \<Rightarrow> propkey \<Rightarrow> jsval \<Rightarrow> error + world" where
  "set_prop w key v =
     (case OrdinarySet w key v of
        Inl e \<Rightarrow> Inl e
      | Inr (ok, w') \<Rightarrow> if ok then Inr w' else Inl read_only)"

text \<open>\<open>Reflect.set(obj, prop, value)\<close> reports a refused write by its result and does not throw.\<close>

definition Reflect_set :: "world \<Rightarrow> propkey \<Rightarrow> jsval \<Rightarrow> error + bool \<times> world" where
  "Reflect_set w key v = OrdinarySet w key v"

subsection \<open>The handlers\<close>

text \<open>
  A handler call returns its completion (\<open>Inl\<close> a thrown error, \<open>Inr\<close> the value
  returned) and the state it leaves. A handler without a \<open>return\<close> returns \<open>undefined\<close>.
\<close>

type_synonym completion = "(error + jsval) \<times> world"

text \<open>
  \<open>console.log(`The value of ${prop} is ${obj[prop]}`)\<close>: the template is evaluated
  first, each substitution read and converted in turn, and may throw; then the line is
  printed.
\<close>

definition log_value :: "propkey \<Rightarrow> world \<Rightarrow> (error + unit) \<times> world" where
  "log_value prop w =
     (case key_ToString prop of
        Some e \<Rightarrow> (Inl e, w)
      | None \<Rightarrow>
          (case get_prop w prop of
             Inl e \<Rightarrow> (Inl e, w)
           | Inr x \<Rightarrow>
               (case ToString x of
                  Some e \<Rightarrow> (Inl e, w)
                | None \<Rightarrow> (Inr (), w\<lparr>console := console w @ [ValueIs prop x]\<rparr>))))"

text \<open>\<open>console.log(`Changed ${prop} from ${obj[prop]} to ${value}`)\<close>.\<close>

definition log_changed :: "propkey \<Rightarrow> jsval \<Rightarrow> world \<Rightarrow> (error + unit) \<times> world" where
  "log_changed prop v w =
     (case key_ToString prop of
        Some e \<Rightarrow> (Inl e, w)
      | None \<Rightarrow>
          (case get_prop w prop of
             Inl e \<Rightarrow> (Inl e, w)
           | Inr x \<Rightarrow>
               (case ToString x of
                  Some e \<Rightarrow> (Inl e, w)
                | None \<Rightarrow>
                    (case ToString v of
                       Some e \<Rightarrow> (Inl e, w)
                     | None \<Rightarrow> (Inr (), w\<lparr>console := console w @ [Changed prop x v]\<rparr>)))))"

text \<open>\<open>personProxy\<close> (lines 7-16): log, then read or write.\<close>

definition personProxy_get :: "propkey \<Rightarrow> world \<Rightarrow> completion" where
  "personProxy_get prop w =
     (case log_value prop w of
        (Inl e, w') \<Rightarrow> (Inl e, w')
      | (Inr u, w') \<Rightarrow>
          (case get_prop w' prop of Inl e \<Rightarrow> (Inl e, w') | Inr x \<Rightarrow> (Inr x, w')))"

definition personProxy_set :: "propkey \<Rightarrow> jsval \<Rightarrow> world \<Rightarrow> completion" where
  "personProxy_set prop v w =
     (case log_changed prop v w of
        (Inl e, w') \<Rightarrow> (Inl e, w')
      | (Inr u, w') \<Rightarrow>
          (case set_prop w' prop v of Inl e \<Rightarrow> (Inl e, w') | Inr w'' \<Rightarrow> (Inr Undefined, w'')))"


definition age_error :: error where
  "age_error = Error ''Sorry, you can only pass numeric values for age.''"

definition name_error :: error where
  "name_error = Error ''You need to provide a valid name.''"

text \<open>
  The condition \<open>prop === 'name' && value.length < 2\<close>: the \<open>length\<close> read happens only
  when the key is \<open>name\<close>, and may throw.
\<close>

definition name_too_short :: "propkey \<Rightarrow> jsval \<Rightarrow> error + bool" where
  "name_too_short prop v =
     (if prop = StringKey ''name''
      then (case get_length v of
              Inl e \<Rightarrow> Inl e
            | Inr l \<Rightarrow> Inr (length_less l (Finite 2)))
      else Inr False)"

definition personProxyValidation_set :: "propkey \<Rightarrow> jsval \<Rightarrow> world \<Rightarrow> completion" where
  "personProxyValidation_set prop v w =
     (if prop = StringKey ''age'' \<and> typeof v \<noteq> ''number''
      then (Inl age_error, w)
      else (case name_too_short prop v of
              Inl e \<Rightarrow> (Inl e, w)
            | Inr True \<Rightarrow> (Inl name_error, w)
            | Inr False \<Rightarrow>
                (case log_changed prop v w of
                   (Inl e, w') \<Rightarrow> (Inl e, w')
                 | (Inr u, w') \<Rightarrow>
                     (case set_prop w' prop v of
                        Inl e \<Rightarrow> (Inl e, w')
                      | Inr w'' \<Rightarrow> (Inr Undefined, w'')))))"

text \<open>\<open>personProxyReflect\<close> (lines 40-49).\<close>

definition personProxyReflect_get :: "propkey \<Rightarrow> world \<Rightarrow> completion" where
  "personProxyReflect_get prop w =
     (case log_value prop w of
        (Inl e, w') \<Rightarrow> (Inl e, w')
      | (Inr u, w') \<Rightarrow>
          (case get_prop w' prop of Inl e \<Rightarrow> (Inl e, w') | Inr x \<Rightarrow> (Inr x, w')))"

definition personProxyReflect_set :: "propkey \<Rightarrow> jsval \<Rightarrow> world \<Rightarrow> completion" where
  "personProxyReflect_set prop v w =
     (case log_changed prop v w of
        (Inl e, w') \<Rightarrow> (Inl e, w')
      | (Inr u, w') \<Rightarrow>
          (case Reflect_set w' prop v of
             Inl e \<Rightarrow> (Inl e, w')
           | Inr (ok, w'') \<Rightarrow> (Inr Undefined, w'')))"

text \<open>
  The assignment \<open>proxy[prop] = value\<close> around a set handler. The handlers of this module
  return nothing, and a falsy result tells the language that the write was refused: code
  in strict mode (every ES module) then raises a \<open>TypeError\<close>, after the handler has run;
  sloppy code goes on. The value of the assignment expression is \<open>value\<close>.
\<close>

definition trap_falsish :: error where
  "trap_falsish = TypeError ''set on proxy: trap returned falsish''"

definition assign ::
  "bool \<Rightarrow> (propkey \<Rightarrow> jsval \<Rightarrow> world \<Rightarrow> completion) \<Rightarrow> propkey \<Rightarrow> jsval \<Rightarrow> world \<Rightarrow> completion"
where
  "assign strict handler prop v w =
     (case handler prop v w of
        (Inl e, w') \<Rightarrow> (Inl e, w')
      | (Inr r, w') \<Rightarrow>
          if strict \<and> \<not> truthy r then (Inl trap_falsish, w') else (Inr v, w'))"

section \<open>Observer: the \<open>Observable\<close> class\<close>

text \<open>
  A function object is known by its identity (\<open>!==\<close> compares references), so an
  observer is the address of its function object. What a call of it does is given
  apart: \<open>call f data calls\<close> is \<open>None\<close> when \<open>f(data)\<close> returns and \<open>Some e\<close> when it
  throws \<open>e\<close>, and may depend on the calls made so far. Observers here do not subscribe
  or unsubscribe while they are being notified.
\<close>

type_synonym func = nat

type_synonym calls = "(func \<times> jsval) list"

type_synonym behaviour = "func \<Rightarrow> jsval \<Rightarrow> calls \<Rightarrow> error option"

record Observable =
  observers :: "func list"

definition Observable_new :: Observable where
  "Observable_new = \<lparr>observers = []\<rparr>"

definition subscribe :: "func \<Rightarrow> Observable \<Rightarrow> Observable" where
  "subscribe func this = this\<lparr>observers := observers this @ [func]\<rparr>"

definition unsubscribe :: "func \<Rightarrow> Observable \<Rightarrow> Observable" where
  "unsubscribe func this =
     this\<lparr>observers := filter (\<lambda>observer. observer \<noteq> func) (observers this)\<rparr>"

text \<open>
  \<open>Array.prototype.forEach\<close> with the callback \<open>observer => observer(data)\<close>: nothing
  catches, so an observer that throws ends the iteration and the error leaves \<open>forEach\<close>.
  Every call made is appended to the record of calls.
\<close>

fun forEach :: "behaviour \<Rightarrow> jsval \<Rightarrow> func list \<Rightarrow> calls \<Rightarrow> (error + unit) \<times> calls" where
  "forEach call data [] cs = (Inr (), cs)"
| "forEach call data (observer # rest) cs =
     (case call observer data cs of
        Some e \<Rightarrow> (Inl e, cs @ [(observer, data)])
      | None \<Rightarrow> forEach call data rest (cs @ [(observer, data)]))"

definition notify :: "behaviour \<Rightarrow> jsval \<Rightarrow> Observable \<Rightarrow> calls \<Rightarrow> (error + unit) \<times> calls" where
  "notify call data this cs = forEach call data (observers this) cs"

text \<open>
  A client's use of an observable over time: a sequence of calls. A \<open>notify\<close>
  that throws leaves the observable as it was; the client goes on.
\<close>

datatype action = Subscribe func | Unsubscribe func | Notify jsval

fun invoke :: "behaviour \<Rightarrow> action \<Rightarrow> Observable \<times> calls \<Rightarrow> Observable \<times> calls" where
  "invoke call (Subscribe func) (this, cs) = (subscribe func this, cs)"
| "invoke call (Unsubscribe func) (this, cs) = (unsubscribe func this, cs)"
| "invoke call (Notify data) (this, cs) = (this, snd (notify call data this cs))"

fun invoke_all :: "behaviour \<Rightarrow> action list \<Rightarrow> Observable \<times> calls \<Rightarrow> Observable \<times> calls" where
  "invoke_all call [] s = s"
| "invoke_all call (m # ms) s = invoke_all call ms (invoke call m s)"

text \<open>Two behaviours used as examples: no observer throws; observer 0 always throws.\<close>

definition quiet :: behaviour where
  "quiet f data cs = None"

definition first_throws :: behaviour where
  "first_throws f data cs = (if f = 0 then Some (Error ''observer failed'') else None)"

section \<open>Flyweight: \<open>createBook\<close>\<close>

text \<open>
  \<open>new Book(title, author, isbn)\<close> allocates an object; its identity is its address, the
  index at which the heap holds it. A \<open>Map\<close> is its entries in insertion order, a \<open>Set\<close>
  its elements in insertion order. What \<open>createBook\<close> returns is a reference to a book,
  a boolean, or \<open>undefined\<close>.
\<close>

record Book =
  title :: string
  author :: string
  isbn :: string

type_synonym ref = nat

datatype result = BookRef ref | BooleanResult bool | UndefinedResult

definition Map_has :: "(string \<times> ref) list \<Rightarrow> string \<Rightarrow> bool" where
  "Map_has m k = (map_of m k \<noteq> None)"

definition Map_get :: "(string \<times> ref) list \<Rightarrow> string \<Rightarrow> result" where
  "Map_get m k = (case map_of m k of None \<Rightarrow> UndefinedResult | Some r \<Rightarrow> BookRef r)"

definition Map_set :: "(string \<times> ref) list \<Rightarrow> string \<Rightarrow> ref \<Rightarrow> (string \<times> ref) list" where
  "Map_set m k r = AList.update k r m"

definition Set_has :: "string list \<Rightarrow> string \<Rightarrow> bool" where
  "Set_has s k = (k \<in> set s)"

definition Set_add :: "string list \<Rightarrow> string \<Rightarrow> string list" where
  "Set_add s k = (if k \<in> set s then s else s @ [k])"

text \<open>The first listing (lines 64 and 78-89): the books are kept in a \<open>Map\<close> by ISBN.\<close>

record library =
  heap :: "Book list"
  books :: "(string \<times> ref) list"

definition library_init :: library where
  "library_init = \<lparr>heap = [], books = []\<rparr>"

definition createBook :: "string \<Rightarrow> string \<Rightarrow> string \<Rightarrow> library \<Rightarrow> result \<times> library" where
  "createBook t a i lib =
     (let existingBook = Map_has (books lib) i in
      if existingBook then (Map_get (books lib) i, lib)
      else (let book = length (heap lib) in
            (BookRef book,
             lib\<lparr>heap := heap lib @ [\<lparr>title = t, author = a, isbn = i\<rparr>],
                 books := Map_set (books lib) i book\<rparr>)))"

text \<open>
  The second, complete listing (lines 132 and 147-156): only the ISBNs are kept, in a
  \<open>Set\<close>, and the local \<open>book\<close> of the first branch is the boolean that \<open>has\<close> returned.
\<close>

record library2 =
  heap2 :: "Book list"
  isbnNumbers :: "string list"

definition library2_init :: library2 where
  "library2_init = \<lparr>heap2 = [], isbnNumbers = []\<rparr>"

definition createBook2 :: "string \<Rightarrow> string \<Rightarrow> string \<Rightarrow> library2 \<Rightarrow> result \<times> library2" where
  "createBook2 t a i lib =
     (let book = Set_has (isbnNumbers lib) i in
      if book then (BooleanResult book, lib)
      else (let book = length (heap2 lib) in
            (BookRef book,
             lib\<lparr>heap2 := heap2 lib @ [\<lparr>title = t, author = a, isbn = i\<rparr>],
                 isbnNumbers := Set_add (isbnNumbers lib) i\<rparr>)))"

text \<open>A run of \<open>createBook\<close> calls on the first listing, by (title, author, isbn).\<close>

fun createBooks :: "(string \<times> string \<times> string) list \<Rightarrow> library \<Rightarrow> library" where
  "createBooks [] lib = lib"
| "createBooks ((t, a, i) # rest) lib = createBooks rest (snd (createBook t a i lib))"

text \<open>How many times \<open>new Book\<close> ran for an ISBN: the books on the heap that carry it.\<close>

definition constructed :: "Book list \<Rightarrow> string \<Rightarrow> nat" where
  "constructed h i = length (filter (\<lambda>b. isbn b = i) h)"

section \<open>Singleton: the \<open>Counter\<close> class\<close>

text \<open>
  Modelled from the spec: the module \<open>singleton.mjs\<close> that defines the class \<open>Counter\<close>
  is missing; only its test is present (\<open>new Counter()\<close>, run after the module has
  built its own instance, throws \<open>You can only create one instance!\<close>). The spec's
  \<open>createOnce()\<close> is a machine with the two states \<open>Uninitialized\<close> and \<open>Initialized\<close>
  and one one-way transition: it succeeds on the first call and fails with
  \<open>AlreadyInitialized\<close> on every later one.
\<close>

datatype lifecycle = Uninitialized | Initialized

datatype init_error = AlreadyInitialized

datatype counter = Counter

definition createOnce :: "lifecycle \<Rightarrow> (init_error + counter) \<times> lifecycle" where
  "createOnce s =
     (case s of
        Uninitialized \<Rightarrow> (Inr Counter, Initialized)
      | Initialized \<Rightarrow> (Inl AlreadyInitialized, Initialized))"

text \<open>\<open>n\<close> construction attempts in a row: their results in order, and the final state.\<close>

fun attempts :: "nat \<Rightarrow> lifecycle \<Rightarrow> (init_error + counter) list \<times> lifecycle" where
  "attempts 0 s = ([], s)"
| "attempts (Suc n) s =
     (case createOnce s of
        (r, s') \<Rightarrow> (case attempts n s' of (rs, s'') \<Rightarrow> (r # rs, s'')))"


section \<open>Properties of the proxies\<close>


lemma get_prop_own: "map_of (person w) key = Some v \<Longrightarrow> get_prop w key = Inr v"
  by (simp add: get_prop_def)




text \<open>
  In strict code an assignment through \<open>personProxyValidation\<close> that the handler accepts
  still raises, once the write is done; in sloppy code it completes.
\<close>

lemma validation_assign_after_accept:
  "personProxyValidation_set prop v w = (Inr r, w') \<Longrightarrow>
     assign True personProxyValidation_set prop v w = (Inl trap_falsish, w') \<and>
     assign False personProxyValidation_set prop v w = (Inr v, w')"
  by (auto simp: assign_def personProxyValidation_set_def
      split: if_splits sum.splits bool.splits prod.splits)

text \<open>
  An object without a usable conversion method does not print: one created with a
  \<open>null\<close> prototype, and one whose \<open>toString\<close> is not a function and whose \<open>valueOf\<close>
  returns the object. A write of such a value to \<open>name\<close> throws from the log line and
  stores nothing.
\<close>

lemma ToString_without_method:
  "ToString (Object None [] False) = Some object_to_primitive \<and>
   ToString (Object None [(StringKey ''toString'', Number (Finite 1))] True)
     = Some object_to_primitive \<and>
   ToString (Object None [] True) = None \<and>
   personProxyValidation_set (StringKey ''name'') (Object None [] False) world_init
     = (Inl object_to_primitive, world_init)"
  by (simp add: object_ToString_def object_member_def Object_prototype_members_def
      personProxyValidation_set_def name_too_short_def log_changed_def get_prop_def
      world_init_def person_init_def)

text \<open>
  C3. For every state of the record and every value whose \<open>typeof\<close> is not \<open>number\<close>
  (\<open>NaN\<close> and the infinities are numbers), the set handler of \<open>personProxyValidation\<close>,
  called for the key \<open>age\<close>, throws the error
  \<open>Sorry, you can only pass numeric values for age.\<close> and leaves the whole state, so
  \<open>age\<close> and every other field, as it was.
\<close>

theorem age_rejects_non_number:
  "typeof v \<noteq> ''number'' \<Longrightarrow>
     personProxyValidation_set (StringKey ''age'') v w = (Inl age_error, w)"
  by (simp add: personProxyValidation_set_def)

text \<open>The test of proxy.test.mjs: \<open>personProxyValidation.age = '43'\<close> with \<open>age\<close> at 42.\<close>

theorem age_rejects_non_number_witness:
  "typeof (String ''43'') \<noteq> ''number'' \<and>
   personProxyValidation_set (StringKey ''age'') (String ''43'') world_init
     = (Inl (Error ''Sorry, you can only pass numeric values for age.''), world_init) \<and>
   get_prop world_init (StringKey ''age'') = Inr (Number (Finite 42))"
  using age_rejects_non_number [of "String ''43''" world_init]
  by (simp add: age_error_def world_init_def person_init_def get_prop_def)

text \<open>
  C6. For every state of the record and every value whose \<open>length\<close> is a number below 2,
  the set handler of \<open>personProxyValidation\<close>, called for the key \<open>name\<close>, throws the error
  \<open>You need to provide a valid name.\<close> and leaves the whole state, so \<open>name\<close>, as it was.
\<close>

theorem name_rejects_short:
  "get_length v = Inr (Some l) \<Longrightarrow> number_less l (Finite 2) \<Longrightarrow>
     personProxyValidation_set (StringKey ''name'') v w = (Inl name_error, w)"
  by (simp add: personProxyValidation_set_def name_too_short_def)

text \<open>The empty name, on the initial record.\<close>

theorem name_rejects_short_witness:
  "get_length (String []) = Inr (Some (Finite 0)) \<and> number_less (Finite 0) (Finite 2) \<and>
   personProxyValidation_set (StringKey ''name'') (String []) world_init
     = (Inl (Error ''You need to provide a valid name.''), world_init) \<and>
   get_prop world_init (StringKey ''name'') = Inr (String ''John Doe'')"
  using name_rejects_short [of "String []" "Finite 0" world_init]
  by (simp add: name_error_def world_init_def person_init_def get_prop_def)







text \<open>
  C10, as stated, fails: a symbol is not \<open>null\<close> and has no \<open>length\<close> property, yet writing
  it to \<open>name\<close> throws a \<open>TypeError\<close> when the handler prints it, before anything is stored;
  and \<open>undefined\<close> is not \<open>null\<close> either, and the read of its \<open>length\<close> throws.
\<close>

theorem name_write_symbol_counterexample:
  "Symbol 0 \<noteq> Null \<and> get_length (Symbol 0) = Inr None \<and>
   personProxyValidation_set (StringKey ''name'') (Symbol 0) world_init
     = (Inl (TypeError ''Cannot convert a Symbol value to a string''), world_init) \<and>
   Undefined \<noteq> Null \<and>
   personProxyValidation_set (StringKey ''name'') Undefined world_init
     = (Inl (TypeError ''Cannot read properties of undefined (reading length)''), world_init)"
  by (simp add: personProxyValidation_set_def name_too_short_def log_changed_def
      symbol_to_string_def get_prop_def world_init_def person_init_def)

text \<open>
  C10, amended. For every value whose \<open>length\<close> read completes with \<open>undefined\<close> (so neither
  \<open>null\<close> nor \<open>undefined\<close>) and that converts to a string (a number, a boolean, a bigint,
  an object with a usable conversion method; not a symbol), and every record that holds a
  \<open>name\<close> that converts to a string, the set handler of \<open>personProxyValidation\<close>, called for
  the key \<open>name\<close>, passes the length check, prints the change, stores the value under
  \<open>name\<close> and returns without throwing. On every record, the write of \<open>undefined\<close> throws
  at the \<open>length\<close> read and the write of a symbol throws from the log line, and both leave
  the state as it was.
\<close>

theorem name_write_without_length:
  "(get_length v = Inr None \<and> ToString v = None \<and>
    map_of (person w) (StringKey ''name'') = Some old \<and> ToString old = None
      \<longrightarrow> personProxyValidation_set (StringKey ''name'') v w =
            (Inr Undefined,
             w\<lparr>console := console w @ [Changed (StringKey ''name'') old v],
               person := AList.update (StringKey ''name'') v (person w)\<rparr>) \<and>
          get_prop (w\<lparr>console := console w @ [Changed (StringKey ''name'') old v],
                      person := AList.update (StringKey ''name'') v (person w)\<rparr>)
            (StringKey ''name'') = Inr v) \<and>
   personProxyValidation_set (StringKey ''name'') Undefined w
     = (Inl (TypeError ''Cannot read properties of undefined (reading length)''), w) \<and>
   (\<exists>e. personProxyValidation_set (StringKey ''name'') (Symbol i) w = (Inl e, w))"
proof (intro conjI impI)
  assume h: "get_length v = Inr None \<and> ToString v = None \<and>
    map_of (person w) (StringKey ''name'') = Some old \<and> ToString old = None"
  then show "personProxyValidation_set (StringKey ''name'') v w =
            (Inr Undefined,
             w\<lparr>console := console w @ [Changed (StringKey ''name'') old v],
               person := AList.update (StringKey ''name'') v (person w)\<rparr>)"
    by (simp add: personProxyValidation_set_def name_too_short_def log_changed_def
        get_prop_def set_prop_def OrdinarySet_def)
  show "get_prop (w\<lparr>console := console w @ [Changed (StringKey ''name'') old v],
                      person := AList.update (StringKey ''name'') v (person w)\<rparr>)
            (StringKey ''name'') = Inr v"
    by (simp add: get_prop_def update_conv')
next
  show "personProxyValidation_set (StringKey ''name'') Undefined w
     = (Inl (TypeError ''Cannot read properties of undefined (reading length)''), w)"
    by (simp add: personProxyValidation_set_def name_too_short_def)
next
  show "\<exists>e. personProxyValidation_set (StringKey ''name'') (Symbol i) w = (Inl e, w)"
    by (auto simp: personProxyValidation_set_def name_too_short_def log_changed_def
        split: sum.splits option.splits)
qed

text \<open>The number 5 written to \<open>name\<close> on the initial record.\<close>

theorem name_write_without_length_witness:
  "get_length (Number (Finite 5)) = Inr None \<and> ToString (Number (Finite 5)) = None \<and>
   map_of (person world_init) (StringKey ''name'') = Some (String ''John Doe'') \<and>
   ToString (String ''John Doe'') = None \<and>
   personProxyValidation_set (StringKey ''name'') (Number (Finite 5)) world_init =
     (Inr Undefined,
      \<lparr>person = [(StringKey ''name'', Number (Finite 5)),
                 (StringKey ''age'', Number (Finite 42)),
                 (StringKey ''nationality'', String ''American'')],
       prototype = ObjectPrototype,
       console = [Changed (StringKey ''name'') (String ''John Doe'') (Number (Finite 5))]\<rparr>)"
proof -
  have h: "get_length (Number (Finite 5)) = Inr None \<and> ToString (Number (Finite 5)) = None \<and>
    map_of (person world_init) (StringKey ''name'') = Some (String ''John Doe'') \<and>
    ToString (String ''John Doe'') = None"
    by (simp add: world_init_def person_init_def)
  with name_write_without_length [of "Number (Finite 5)" world_init "String ''John Doe''"]
  show ?thesis by (simp add: world_init_def person_init_def)
qed

section \<open>Properties of the observable\<close>

text \<open>When every observer returns, \<open>forEach\<close> calls each once, in list order.\<close>

lemma forEach_all_return:
  "(\<forall>j < length obs. call (obs ! j) data (cs @ map (\<lambda>g. (g, data)) (take j obs)) = None) \<Longrightarrow>
     forEach call data obs cs = (Inr (), cs @ map (\<lambda>g. (g, data)) obs)"
proof (induction obs arbitrary: cs)
  case Nil
  then show ?case by simp
next
  case (Cons p ps)
  from Cons.prems have head: "call p data cs = None" by fastforce
  have "\<forall>j < length ps.
          call (ps ! j) data ((cs @ [(p, data)]) @ map (\<lambda>g. (g, data)) (take j ps)) = None"
  proof (intro allI impI)
    fix j assume "j < length ps"
    then have "Suc j < length (p # ps)" by simp
    with Cons.prems show
      "call (ps ! j) data ((cs @ [(p, data)]) @ map (\<lambda>g. (g, data)) (take j ps)) = None"
      by fastforce
  qed
  then have "forEach call data ps (cs @ [(p, data)])
               = (Inr (), (cs @ [(p, data)]) @ map (\<lambda>g. (g, data)) ps)"
    by (rule Cons.IH)
  with head show ?case by simp
qed

text \<open>The first observer that throws is the last one called.\<close>

lemma forEach_first_throw:
  "(\<forall>j < length pre. call (pre ! j) data (cs @ map (\<lambda>g. (g, data)) (take j pre)) = None) \<Longrightarrow>
   call f data (cs @ map (\<lambda>g. (g, data)) pre) = Some e \<Longrightarrow>
     forEach call data (pre @ f # post) cs = (Inl e, cs @ map (\<lambda>g. (g, data)) (pre @ [f]))"
proof (induction pre arbitrary: cs)
  case Nil
  then show ?case by simp
next
  case (Cons p ps)
  from Cons.prems(1) have head: "call p data cs = None" by fastforce
  have rest: "\<forall>j < length ps.
          call (ps ! j) data ((cs @ [(p, data)]) @ map (\<lambda>g. (g, data)) (take j ps)) = None"
  proof (intro allI impI)
    fix j assume "j < length ps"
    then have "Suc j < length (p # ps)" by simp
    with Cons.prems(1) show
      "call (ps ! j) data ((cs @ [(p, data)]) @ map (\<lambda>g. (g, data)) (take j ps)) = None"
      by fastforce
  qed
  from Cons.prems(2) have "call f data ((cs @ [(p, data)]) @ map (\<lambda>g. (g, data)) ps) = Some e"
    by simp
  with rest have "forEach call data (ps @ f # post) (cs @ [(p, data)])
               = (Inl e, (cs @ [(p, data)]) @ map (\<lambda>g. (g, data)) (ps @ [f]))"
    by (rule Cons.IH)
  with head show ?case by simp
qed

text \<open>Whatever the observers do, the calls made are a prefix of the list.\<close>

lemma forEach_calls_prefix:
  "\<exists>n. snd (forEach call data obs cs) = cs @ map (\<lambda>g. (g, data)) (take n obs)"
proof (induction obs arbitrary: cs)
  case Nil
  then show ?case by simp
next
  case (Cons p ps)
  show ?case
  proof (cases "call p data cs")
    case (Some e)
    then have "snd (forEach call data (p # ps) cs)
                 = cs @ map (\<lambda>g. (g, data)) (take (Suc 0) (p # ps))" by simp
    then show ?thesis by blast
  next
    case None
    from Cons.IH [of "cs @ [(p, data)]"] obtain n where
      "snd (forEach call data ps (cs @ [(p, data)]))
         = (cs @ [(p, data)]) @ map (\<lambda>g. (g, data)) (take n ps)" by blast
    with None have "snd (forEach call data (p # ps) cs)
                 = cs @ map (\<lambda>g. (g, data)) (take (Suc n) (p # ps))" by simp
    then show ?thesis by blast
  qed
qed

lemma notify_calls_observers_only:
  "\<exists>new. snd (notify call data this cs) = cs @ new \<and> fst ` set new \<subseteq> set (observers this)"
proof -
  obtain n where n: "snd (notify call data this cs)
      = cs @ map (\<lambda>g. (g, data)) (take n (observers this))"
    unfolding notify_def using forEach_calls_prefix by blast
  have "fst ` set (map (\<lambda>g. (g, data)) (take n (observers this))) \<subseteq> set (observers this)"
    by (auto dest: in_set_takeD)
  with n show ?thesis by blast
qed

lemma invoke_all_without_subscribe:
  "Subscribe c \<notin> set ms \<Longrightarrow> c \<notin> set (observers this) \<Longrightarrow>
     \<exists>new. snd (invoke_all call ms (this, cs)) = cs @ new \<and> c \<notin> fst ` set new"
proof (induction ms arbitrary: this cs)
  case Nil
  then show ?case by simp
next
  case (Cons m ms)
  show ?case
  proof (cases m)
    case (Subscribe f)
    with Cons.prems have "f \<noteq> c" by auto
    with Cons.prems have "c \<notin> set (observers (subscribe f this))"
      by (simp add: subscribe_def)
    with Cons.IH [of "subscribe f this" cs] Cons.prems Subscribe show ?thesis by simp
  next
    case (Unsubscribe f)
    from Cons.prems have "c \<notin> set (observers (unsubscribe f this))"
      by (simp add: unsubscribe_def)
    with Cons.IH [of "unsubscribe f this" cs] Cons.prems Unsubscribe show ?thesis by simp
  next
    case (Notify data)
    obtain new where new: "snd (notify call data this cs) = cs @ new"
      "fst ` set new \<subseteq> set (observers this)"
      using notify_calls_observers_only by blast
    with Cons.prems have c: "c \<notin> fst ` set new" by blast
    from Cons.IH [of this "cs @ new"] Cons.prems obtain new' where
      "snd (invoke_all call ms (this, cs @ new)) = (cs @ new) @ new'" "c \<notin> fst ` set new'"
      by auto
    with new c Notify have "snd (invoke_all call (m # ms) (this, cs)) = cs @ (new @ new')"
      "c \<notin> fst ` set (new @ new')" by auto
    then show ?thesis by blast
  qed
qed

text \<open>
  C4, as stated, fails: with observer 0 throwing and observer 1 subscribed after it,
  \<open>notify\<close> ends with the error of observer 0 and observer 1 is never called.
\<close>

theorem notify_isolation_counterexample:
  "notify first_throws (String ''click'') \<lparr>observers = [0, 1]\<rparr> []
     = (Inl (Error ''observer failed''), [(0, String ''click'')]) \<and>
   (1::nat) \<in> set (observers \<lparr>observers = [0, 1]\<rparr>) \<and>
   (1::nat) \<notin> fst ` set (snd (notify first_throws (String ''click'') \<lparr>observers = [0, 1]\<rparr> []))"
  by (simp add: notify_def first_throws_def)

text \<open>
  C4, amended. \<open>notify\<close> calls the observers in subscription order. When every observer
  returns, each is called once and \<open>notify\<close> returns. When an observer throws, the ones
  before it have been called, it is the last one called, and \<open>notify\<close> ends at once with that
  observer's error as thrown: the observers after it are not called, and nothing is
  collected.
\<close>

theorem notify_stops_at_first_throw:
  "((\<forall>j < length (observers this).
        call (observers this ! j) data (cs @ map (\<lambda>g. (g, data)) (take j (observers this))) = None)
      \<longrightarrow> notify call data this cs = (Inr (), cs @ map (\<lambda>g. (g, data)) (observers this))) \<and>
   (observers this = pre @ f # post \<and>
    (\<forall>j < length pre. call (pre ! j) data (cs @ map (\<lambda>g. (g, data)) (take j pre)) = None) \<and>
    call f data (cs @ map (\<lambda>g. (g, data)) pre) = Some e
      \<longrightarrow> notify call data this cs = (Inl e, cs @ map (\<lambda>g. (g, data)) (pre @ [f])))"
  unfolding notify_def
  using forEach_all_return [of "observers this" call data cs]
    forEach_first_throw [of pre call data cs f e post]
  by simp

text \<open>Two quiet observers; then a throwing observer between two quiet ones.\<close>

theorem notify_stops_at_first_throw_witness:
  "notify quiet (String ''click'') \<lparr>observers = [1, 2]\<rparr> []
      = (Inr (), [(1, String ''click''), (2, String ''click'')]) \<and>
   notify first_throws (String ''click'') \<lparr>observers = [1, 0, 2]\<rparr> []
      = (Inl (Error ''observer failed''), [(1, String ''click''), (0, String ''click'')])"
proof -
  have a: "\<forall>j < length (observers \<lparr>observers = [1, 2]\<rparr>).
      quiet (observers \<lparr>observers = [1, 2]\<rparr> ! j) (String ''click'')
        ([] @ map (\<lambda>g. (g, String ''click'')) (take j (observers \<lparr>observers = [1, 2]\<rparr>))) = None"
    by (simp add: quiet_def)
  have b: "observers \<lparr>observers = [1, 0, 2]\<rparr> = [1] @ 0 # [2] \<and>
    (\<forall>j < length [1::nat]. first_throws ([1] ! j) (String ''click'')
        ([] @ map (\<lambda>g. (g, String ''click'')) (take j [1])) = None) \<and>
    first_throws 0 (String ''click'') ([] @ map (\<lambda>g. (g, String ''click'')) [1])
      = Some (Error ''observer failed'')"
    by (simp add: first_throws_def)
  from a notify_stops_at_first_throw [of "\<lparr>observers = [1, 2]\<rparr>" quiet "String ''click''" "[]"]
  have "notify quiet (String ''click'') \<lparr>observers = [1, 2]\<rparr> []
      = (Inr (), [(1, String ''click''), (2, String ''click'')])" by simp
  moreover from b notify_stops_at_first_throw [of "\<lparr>observers = [1, 0, 2]\<rparr>" first_throws
      "String ''click''" "[]" "[1]" 0 "[2]" "Error ''observer failed''"]
  have "notify first_throws (String ''click'') \<lparr>observers = [1, 0, 2]\<rparr> []
      = (Inl (Error ''observer failed''), [(1, String ''click''), (0, String ''click'')])"
    by simp
  ultimately show ?thesis by simp
qed

text \<open>
  C5, as stated, fails: subscribing observer 7 a second time changes the list, to two
  occurrences, and \<open>notify\<close> then calls it twice.
\<close>

theorem subscribe_twice_counterexample:
  "subscribe 7 (subscribe 7 Observable_new) \<noteq> subscribe 7 Observable_new \<and>
   observers (subscribe 7 (subscribe 7 Observable_new)) = [7, 7] \<and>
   notify quiet (String ''click'') (subscribe 7 (subscribe 7 Observable_new)) []
     = (Inr (), [(7, String ''click''), (7, String ''click'')])"
  by (simp add: subscribe_def Observable_new_def notify_def quiet_def)

text \<open>
  C5, amended. \<open>subscribe\<close> appends the callback to the list whether or not it is already
  there, and when no observer throws \<open>notify\<close> calls exactly the list, in order: a callback
  is called once for each time it was subscribed.
\<close>

theorem subscribe_appends:
  "observers (subscribe func this) = observers this @ [func] \<and>
   ((\<forall>g cs'. call g data cs' = None) \<longrightarrow>
      map fst (drop (length cs) (snd (notify call data this cs))) = observers this)"
proof (intro conjI impI)
  show "observers (subscribe func this) = observers this @ [func]"
    by (simp add: subscribe_def)
  assume "\<forall>g cs'. call g data cs' = None"
  then have "notify call data this cs = (Inr (), cs @ map (\<lambda>g. (g, data)) (observers this))"
    unfolding notify_def by (intro forEach_all_return) simp
  then show "map fst (drop (length cs) (snd (notify call data this cs))) = observers this"
    by (simp add: comp_def)
qed

text \<open>Observer 7 subscribed twice to a new observable, then one \<open>notify\<close>.\<close>

theorem subscribe_appends_witness:
  "observers (subscribe 7 (subscribe 7 Observable_new)) = [7, 7] \<and>
   map fst (drop (length ([] :: calls))
     (snd (notify quiet (String ''click'') (subscribe 7 (subscribe 7 Observable_new)) [])))
     = [7, 7]"
proof -
  have q: "\<forall>g cs'. quiet g (String ''click'') cs' = None" by (simp add: quiet_def)
  have "observers (subscribe 7 (subscribe 7 Observable_new)) = [7, 7]"
    using subscribe_appends [of 7 "subscribe 7 Observable_new" quiet "String ''click''" "[]"]
      subscribe_appends [of 7 Observable_new quiet "String ''click''" "[]"]
    by (simp add: Observable_new_def)
  with q subscribe_appends [of 7 "subscribe 7 (subscribe 7 Observable_new)" quiet
      "String ''click''" "[]"]
  show ?thesis by simp
qed

text \<open>
  C7. \<open>unsubscribe\<close> removes every occurrence of the callback and changes nothing when it
  is absent; and after it, over any later sequence of \<open>subscribe\<close>, \<open>unsubscribe\<close> and
  \<open>notify\<close> calls that does not subscribe the callback again, no \<open>notify\<close> calls it.
\<close>

theorem unsubscribed_never_notified:
  "c \<notin> set (observers (unsubscribe c this)) \<and>
   (c \<notin> set (observers this) \<longrightarrow> unsubscribe c this = this) \<and>
   (Subscribe c \<notin> set ms \<longrightarrow>
      c \<notin> fst ` set (drop (length cs) (snd (invoke_all call ms (unsubscribe c this, cs)))))"
proof (intro conjI impI)
  show gone: "c \<notin> set (observers (unsubscribe c this))"
    by (simp add: unsubscribe_def)
  show "unsubscribe c this = this" if "c \<notin> set (observers this)"
  proof -
    from that have "filter (\<lambda>observer. observer \<noteq> c) (observers this) = observers this"
      by (auto simp: filter_id_conv)
    then show ?thesis by (simp add: unsubscribe_def)
  qed
  show "c \<notin> fst ` set (drop (length cs) (snd (invoke_all call ms (unsubscribe c this, cs))))"
    if "Subscribe c \<notin> set ms"
  proof -
    from invoke_all_without_subscribe [OF that gone] obtain new where
      "snd (invoke_all call ms (unsubscribe c this, cs)) = cs @ new" "c \<notin> fst ` set new"
      by blast
    then show ?thesis by simp
  qed
qed

text \<open>
  Observer 1, subscribed twice, is unsubscribed; two notifications and a subscription of
  another observer follow. An absent observer 5 is unsubscribed without effect.
\<close>

theorem unsubscribed_never_notified_witness:
  "Subscribe 1 \<notin> set [Notify (String ''click''), Subscribe 2, Notify (String ''toggle'')] \<and>
   snd (invoke_all quiet [Notify (String ''click''), Subscribe 2, Notify (String ''toggle'')]
          (unsubscribe 1 \<lparr>observers = [1, 3, 1]\<rparr>, []))
     = [(3, String ''click''), (3, String ''toggle''), (2, String ''toggle'')] \<and>
   (1::nat) \<notin> fst ` set (drop (length ([] :: calls))
      (snd (invoke_all quiet [Notify (String ''click''), Subscribe 2, Notify (String ''toggle'')]
          (unsubscribe 1 \<lparr>observers = [1, 3, 1]\<rparr>, [])))) \<and>
   (5::nat) \<notin> set (observers \<lparr>observers = [1, 3, 1]\<rparr>) \<and>
   unsubscribe 5 \<lparr>observers = [1, 3, 1]\<rparr> = \<lparr>observers = [1, 3, 1]\<rparr>"
  using unsubscribed_never_notified [of 1 "\<lparr>observers = [1, 3, 1]\<rparr>"
      "[Notify (String ''click''), Subscribe 2, Notify (String ''toggle'')]" "[]" quiet]
    unsubscribed_never_notified [of 5 "\<lparr>observers = [1, 3, 1]\<rparr>" "[]" "[]" quiet]
  by (simp add: unsubscribe_def subscribe_def notify_def quiet_def)

section \<open>Properties of \<open>createBook\<close>\<close>

text \<open>
  The first listing does what its text says: a second call with the same ISBN returns
  the reference the first call returned, allocates nothing and leaves the library as it
  was; and over any run of calls \<open>new Book\<close> runs at most once for an ISBN.
\<close>

lemma createBook_hit:
  "Map_has (books lib) i \<Longrightarrow> createBook t a i lib = (Map_get (books lib) i, lib)"
  by (simp add: createBook_def)

lemma createBook_registers:
  "createBook t a i lib = (r, lib') \<Longrightarrow>
     Map_has (books lib') i \<and> Map_get (books lib') i = r \<and> (\<exists>b. r = BookRef b)"
  by (auto simp: createBook_def Let_def Map_has_def Map_get_def Map_set_def update_conv'
      split: if_splits)

lemma createBook_same_instance:
  assumes "createBook t a i lib = (r1, lib1)" and "createBook t' a' i lib1 = (r2, lib2)"
  shows "r2 = r1 \<and> lib2 = lib1 \<and> (\<exists>b. r1 = BookRef b)"
proof -
  from assms(1) have h: "Map_has (books lib1) i" "Map_get (books lib1) i = r1"
    "\<exists>b. r1 = BookRef b"
    using createBook_registers by blast+
  from h(1) have "createBook t' a' i lib1 = (Map_get (books lib1) i, lib1)"
    by (rule createBook_hit)
  with assms(2) h show ?thesis by simp
qed

lemma constructed_createBook:
  "(\<forall>k. constructed (heap lib) k = (if Map_has (books lib) k then 1 else 0)) \<Longrightarrow>
   (\<forall>k. constructed (heap (snd (createBook t a i lib))) k
          = (if Map_has (books (snd (createBook t a i lib))) k then 1 else 0))"
  by (auto simp: createBook_def Let_def constructed_def Map_has_def Map_set_def update_conv')

lemma constructed_createBooks:
  "(\<forall>k. constructed (heap lib) k = (if Map_has (books lib) k then 1 else 0)) \<Longrightarrow>
   constructed (heap (createBooks calls lib)) k
          = (if Map_has (books (createBooks calls lib)) k then 1 else 0)"
proof (induction calls arbitrary: lib)
  case Nil
  then show ?case by simp
next
  case (Cons c calls)
  obtain t a i where c: "c = (t, a, i)" by (cases c)
  from Cons.prems have "\<forall>k. constructed (heap (snd (createBook t a i lib))) k
          = (if Map_has (books (snd (createBook t a i lib))) k then 1 else 0)"
    by (rule constructed_createBook)
  then show ?case unfolding c createBooks.simps by (rule Cons.IH)
qed

lemma createBook_constructs_at_most_once:
  "constructed (heap (createBooks calls library_init)) k \<le> 1"
proof -
  have "\<forall>k. constructed (heap library_init) k = (if Map_has (books library_init) k then 1 else 0)"
    by (simp add: library_init_def constructed_def Map_has_def)
  then have "constructed (heap (createBooks calls library_init)) k
          = (if Map_has (books (createBooks calls library_init)) k then 1 else 0)"
    by (rule constructed_createBooks)
  then show ?thesis by simp
qed

text \<open>The second listing, on an ISBN it has seen, returns the boolean of \<open>has\<close>.\<close>

lemma createBook2_hit:
  "Set_has (isbnNumbers lib) i \<Longrightarrow> createBook2 t a i lib = (BooleanResult True, lib)"
  by (simp add: createBook2_def)

text \<open>
  C1. The second listing, at the first two calls of its own example: the first call
  allocates the book at address 0 and returns its reference; the second call with the same
  ISBN allocates nothing and returns the boolean \<open>true\<close>, not that reference.
\<close>

theorem createBook2_second_call_returns_true:
  "createBook2 ''Harry Potter'' ''JK Rowling'' ''AB123'' library2_init
     = (BookRef 0,
        \<lparr>heap2 = [\<lparr>title = ''Harry Potter'', author = ''JK Rowling'', isbn = ''AB123''\<rparr>],
         isbnNumbers = [''AB123'']\<rparr>) \<and>
   createBook2 ''Harry Potter'' ''JK Rowling'' ''AB123''
       \<lparr>heap2 = [\<lparr>title = ''Harry Potter'', author = ''JK Rowling'', isbn = ''AB123''\<rparr>],
        isbnNumbers = [''AB123'']\<rparr>
     = (BooleanResult True,
        \<lparr>heap2 = [\<lparr>title = ''Harry Potter'', author = ''JK Rowling'', isbn = ''AB123''\<rparr>],
         isbnNumbers = [''AB123'']\<rparr>) \<and>
   BooleanResult True \<noteq> BookRef 0"
  by (simp add: createBook2_def library2_init_def Set_has_def Set_add_def)

section \<open>Properties of the singleton\<close>

lemma attempts_Initialized:
  "attempts n Initialized = (replicate n (Inl AlreadyInitialized), Initialized)"
  by (induction n) (simp_all add: createOnce_def)

text \<open>
  C2. Of any number of construction attempts from the start, the first succeeds and every
  later one fails with \<open>AlreadyInitialized\<close>; every attempt leaves the machine in
  \<open>Initialized\<close>, from either state, so the one transition is never reversed.
\<close>

theorem createOnce_succeeds_exactly_once:
  "attempts (Suc n) Uninitialized
     = (Inr Counter # replicate n (Inl AlreadyInitialized), Initialized) \<and>
   snd (createOnce s) = Initialized \<and>
   createOnce Initialized = (Inl AlreadyInitialized, Initialized)"
  by (cases s) (simp_all add: createOnce_def attempts_Initialized)

text \<open>Three attempts from the start; and the attempt of the test, made after the first.\<close>

theorem createOnce_succeeds_exactly_once_witness:
  "attempts (Suc (Suc (Suc 0))) Uninitialized
     = ([Inr Counter, Inl AlreadyInitialized, Inl AlreadyInitialized], Initialized) \<and>
   snd (createOnce Uninitialized) = Initialized \<and>
   createOnce (snd (createOnce Uninitialized)) = (Inl AlreadyInitialized, Initialized)"
  using createOnce_succeeds_exactly_once [of "Suc (Suc 0)" Uninitialized]
  by simp

end
